theory Spec2Isabelle
  imports Main "HOL-Library.Char_ord" "HOL-Library.List_Lexorder" "HOL-Library.Multiset"
begin

section \<open>JSON values and the JavaScript operators the handlers use\<close>

text \<open>
  The request bodies of \<^verbatim>\<open>server.js\<close> are parsed by \<^verbatim>\<open>express.json()\<close>. A field of a
  body ranges here over the JSON values the record shape of the application uses: an absent
  field (\<^verbatim>\<open>undefined\<close> after destructuring), \<^verbatim>\<open>null\<close>, a boolean and a string.
  Numbers, arrays and nested objects are outside the model.
\<close>

datatype jsval = JUndefined | JNull | JBool bool | JStr string

text \<open>JavaScript truthiness, as used by \<^verbatim>\<open>!x\<close>, \<^verbatim>\<open>x || y\<close> and \<^verbatim>\<open>x ? a : b\<close>.\<close>

fun truthy :: "jsval \<Rightarrow> bool" where
  "truthy JUndefined = False"
| "truthy JNull = False"
| "truthy (JBool b) = b"
| "truthy (JStr s) = (s \<noteq> [])"

text \<open>\<^verbatim>\<open>a || b\<close>\<close>

definition js_or :: "jsval \<Rightarrow> jsval \<Rightarrow> jsval" where
  "js_or a b = (if truthy a then a else b)"

text \<open>The body of a create, update or sync item: \<^verbatim>\<open>req.body\<close>, or one \<^verbatim>\<open>a\<close> of the sync list.\<close>

record payload =
  p_id :: jsval
  p_title :: jsval
  p_subject :: jsval
  p_type :: jsval
  p_dueDate :: jsval
  p_description :: jsval
  p_completed :: jsval
  p_createdAt :: jsval

text \<open>
  The three failure responses of the handlers: status 400 (\<open>ValidationError\<close>), status 404
  (\<open>NotFound\<close>) and status 500, sent by every \<^verbatim>\<open>catch\<close> block (\<open>PersistenceFailure\<close>).
\<close>

datatype error = ValidationError | NotFound | PersistenceFailure

section \<open>The assignments table\<close>

text \<open>
  One row of \<^verbatim>\<open>assignments\<close>. \<^verbatim>\<open>id\<close> is the primary key of the table, on its own;
  \<^verbatim>\<open>user_id\<close>, \<^verbatim>\<open>title\<close>, \<^verbatim>\<open>subject\<close>, \<^verbatim>\<open>type\<close> and \<^verbatim>\<open>due_date\<close> are \<^verbatim>\<open>NOT NULL\<close>;
  \<^verbatim>\<open>description\<close> may be \<^verbatim>\<open>NULL\<close>. The handlers only ever store 0, 1 or a stored value in
  \<^verbatim>\<open>completed\<close>, and only ever bind a text for a timestamp.

  The two timestamps are \<^verbatim>\<open>DATETIME\<close> columns, which have numeric affinity: a text that
  is a well-formed integer or real literal is stored as that number, and read back as a
  number; any other text is stored as it is. The numbers of SQLite are left abstract, and
  the conversion is a parameter of the model: \<open>num s\<close> is the number that the text \<open>s\<close> is
  stored as, or \<open>None\<close> when \<open>s\<close> stays a text. Nothing is assumed of it. The other text
  columns have text affinity and keep a bound string as it is.
\<close>

typedecl sqlnum

datatype datetime = DText string | DNumber sqlnum

type_synonym affinity = "string \<Rightarrow> sqlnum option"

definition store_numeric :: "affinity \<Rightarrow> string \<Rightarrow> datetime" where
  "store_numeric num s = (case num s of None \<Rightarrow> DText s | Some n \<Rightarrow> DNumber n)"

record row =
  r_id :: string
  r_user_id :: string
  r_title :: string
  r_subject :: string
  r_type :: string
  r_due_date :: string
  r_description :: "string option"
  r_completed :: int
  r_created_at :: datetime
  r_updated_at :: datetime

text \<open>
  The table is the list of its rows in rowid order, which is the order of insertion: a new
  row gets a rowid above every present one. The foreign key into \<^verbatim>\<open>users\<close> always holds
  when a handler runs, because \<^verbatim>\<open>verifyGoogleToken\<close> upserts the user first; the \<^verbatim>\<open>users\<close>
  table is therefore left out.
\<close>

type_synonym table = "row list"

text \<open>The primary key constraint as a property of a table.\<close>

definition pk_ok :: "table \<Rightarrow> bool" where
  "pk_ok tbl = distinct (map r_id tbl)"

text \<open>The rows of one user, in table order.\<close>

definition rows_of :: "string \<Rightarrow> table \<Rightarrow> row list" where
  "rows_of uid tbl = filter (\<lambda>r. r_user_id r = uid) tbl"

subsection \<open>Binding parameters\<close>

text \<open>
  \<^verbatim>\<open>better-sqlite3\<close> binds a string as \<^verbatim>\<open>TEXT\<close> and \<^verbatim>\<open>null\<close> as \<^verbatim>\<open>NULL\<close>, and
  throws a \<^verbatim>\<open>TypeError\<close> on a boolean. A \<^verbatim>\<open>NULL\<close> in a \<^verbatim>\<open>NOT NULL\<close> column makes the
  statement fail (also under \<^verbatim>\<open>OR REPLACE\<close>, the column having no default). So a
  \<^verbatim>\<open>NOT NULL\<close> column takes exactly the strings, and \<^verbatim>\<open>description\<close> a string or
  \<^verbatim>\<open>null\<close>. An \<^verbatim>\<open>undefined\<close> parameter only ever reaches a \<^verbatim>\<open>NOT NULL\<close> column (the
  fields of a sync item), where it fails whether it is bound as \<^verbatim>\<open>NULL\<close> or refused:
  the handlers replace an absent \<^verbatim>\<open>description\<close> by \<^verbatim>\<open>null\<close> or by the stored value.
\<close>

fun is_text :: "jsval \<Rightarrow> bool" where
  "is_text (JStr s) = True"
| "is_text v = False"

fun text_of :: "jsval \<Rightarrow> string" where
  "text_of (JStr s) = s"
| "text_of v = []"

fun is_nullable_text :: "jsval \<Rightarrow> bool" where
  "is_nullable_text (JBool b) = False"
| "is_nullable_text v = True"

fun nullable_text_of :: "jsval \<Rightarrow> string option" where
  "nullable_text_of (JStr s) = Some s"
| "nullable_text_of v = None"

text \<open>A stored \<^verbatim>\<open>description\<close> read back into JavaScript: \<^verbatim>\<open>NULL\<close> is \<^verbatim>\<open>null\<close>.\<close>

fun js_of_nullable :: "string option \<Rightarrow> jsval" where
  "js_of_nullable None = JNull"
| "js_of_nullable (Some s) = JStr s"

subsection \<open>The prepared statements\<close>

text \<open>
  \<^verbatim>\<open>SELECT * FROM assignments WHERE user_id = ? ORDER BY due_date ASC\<close>. \<^verbatim>\<open>TEXT\<close> values
  compare bytewise, which is the lexicographic order on \<open>string\<close>. SQL leaves the order of
  rows with equal keys to the engine; the model takes the stable sort of the rows in rowid
  order.
\<close>

definition stmt_getAssignments :: "string \<Rightarrow> table \<Rightarrow> row list" where
  "stmt_getAssignments uid tbl = sort_key r_due_date (filter (\<lambda>r. r_user_id r = uid) tbl)"

text \<open>\<^verbatim>\<open>SELECT * FROM assignments WHERE id = ? AND user_id = ?\<close>, read with \<^verbatim>\<open>.get\<close>.\<close>

definition stmt_getAssignment :: "string \<Rightarrow> string \<Rightarrow> table \<Rightarrow> row option" where
  "stmt_getAssignment aid uid tbl = find (\<lambda>r. r_id r = aid \<and> r_user_id r = uid) tbl"

text \<open>
  \<^verbatim>\<open>INSERT INTO assignments (id, user_id, title, subject, type, due_date, description,
  completed) VALUES (...)\<close>. The first argument is the value of \<^verbatim>\<open>CURRENT_TIMESTAMP\<close>, the
  default of both timestamps: a text of the form \<^verbatim>\<open>YYYY-MM-DD HH:MM:SS\<close>, no numeric
  literal, and so stored as the text it is. The statement fails on a parameter that cannot be bound, on a
  \<^verbatim>\<open>NULL\<close> in a \<^verbatim>\<open>NOT NULL\<close> column, and on an id that some row of the table has already.
\<close>

definition stmt_insertAssignment ::
  "string \<Rightarrow> jsval \<Rightarrow> string \<Rightarrow> jsval \<Rightarrow> jsval \<Rightarrow> jsval \<Rightarrow> jsval \<Rightarrow> jsval \<Rightarrow> int \<Rightarrow> table
    \<Rightarrow> error + table" where
  "stmt_insertAssignment ts aid uid title subject type due descr completed tbl =
     (if is_text aid \<and> is_text title \<and> is_text subject \<and> is_text type \<and> is_text due
         \<and> is_nullable_text descr \<and> text_of aid \<notin> set (map r_id tbl)
      then Inr (tbl @ [\<lparr>r_id = text_of aid, r_user_id = uid, r_title = text_of title,
                        r_subject = text_of subject, r_type = text_of type,
                        r_due_date = text_of due, r_description = nullable_text_of descr,
                        r_completed = completed, r_created_at = DText ts,
                        r_updated_at = DText ts\<rparr>])
      else Inl PersistenceFailure)"

text \<open>
  \<^verbatim>\<open>UPDATE assignments SET title = ?, subject = ?, type = ?, due_date = ?, description = ?,
  completed = ?, updated_at = CURRENT_TIMESTAMP WHERE id = ? AND user_id = ?\<close>
\<close>

definition stmt_updateAssignment ::
  "string \<Rightarrow> jsval \<Rightarrow> jsval \<Rightarrow> jsval \<Rightarrow> jsval \<Rightarrow> jsval \<Rightarrow> int \<Rightarrow> string \<Rightarrow> string \<Rightarrow> table
    \<Rightarrow> error + table" where
  "stmt_updateAssignment ts title subject type due descr completed aid uid tbl =
     (if is_text title \<and> is_text subject \<and> is_text type \<and> is_text due \<and> is_nullable_text descr
      then Inr (map (\<lambda>r. if r_id r = aid \<and> r_user_id r = uid
                         then r\<lparr>r_title := text_of title, r_subject := text_of subject,
                                r_type := text_of type, r_due_date := text_of due,
                                r_description := nullable_text_of descr,
                                r_completed := completed, r_updated_at := DText ts\<rparr>
                         else r) tbl)
      else Inl PersistenceFailure)"

text \<open>\<^verbatim>\<open>DELETE FROM assignments WHERE id = ? AND user_id = ?\<close>\<close>

definition stmt_deleteAssignment :: "string \<Rightarrow> string \<Rightarrow> table \<Rightarrow> table" where
  "stmt_deleteAssignment aid uid tbl = filter (\<lambda>r. \<not> (r_id r = aid \<and> r_user_id r = uid)) tbl"

text \<open>\<^verbatim>\<open>DELETE FROM assignments WHERE user_id = ?\<close>\<close>

definition stmt_deleteAllAssignments :: "string \<Rightarrow> table \<Rightarrow> table" where
  "stmt_deleteAllAssignments uid tbl = filter (\<lambda>r. r_user_id r \<noteq> uid) tbl"

text \<open>
  \<^verbatim>\<open>INSERT OR REPLACE INTO assignments (id, user_id, title, subject, type, due_date,
  description, completed, created_at) VALUES (...)\<close>. On a primary key conflict \<^verbatim>\<open>OR
  REPLACE\<close> deletes the row that holds the id, whoever owns it, and inserts the new row.
  \<^verbatim>\<open>created_at\<close> is a parameter here, a text that the numeric affinity of the column
  may store as a number; \<^verbatim>\<open>updated_at\<close> takes its default, the second argument.
\<close>

definition stmt_bulkInsertAssignment ::
  "affinity \<Rightarrow> string \<Rightarrow> jsval \<Rightarrow> string \<Rightarrow> jsval \<Rightarrow> jsval \<Rightarrow> jsval \<Rightarrow> jsval \<Rightarrow> jsval
    \<Rightarrow> int \<Rightarrow> jsval \<Rightarrow> table \<Rightarrow> error + table" where
  "stmt_bulkInsertAssignment num ts aid uid title subject type due descr completed created tbl =
     (if is_text aid \<and> is_text title \<and> is_text subject \<and> is_text type \<and> is_text due
         \<and> is_nullable_text descr \<and> is_text created
      then Inr (filter (\<lambda>r. r_id r \<noteq> text_of aid) tbl
                @ [\<lparr>r_id = text_of aid, r_user_id = uid, r_title = text_of title,
                    r_subject = text_of subject, r_type = text_of type,
                    r_due_date = text_of due, r_description = nullable_text_of descr,
                    r_completed = completed,
                    r_created_at = store_numeric num (text_of created),
                    r_updated_at = DText ts\<rparr>])
      else Inl PersistenceFailure)"

section \<open>The handlers\<close>

text \<open>
  What a handler reads from its environment: \<^verbatim>\<open>Date.now().toString()\<close>,
  \<^verbatim>\<open>Math.random().toString(36).substr(2, 9)\<close>, \<^verbatim>\<open>new Date().toISOString()\<close> and SQLite's
  \<^verbatim>\<open>CURRENT_TIMESTAMP\<close>, the text \<^verbatim>\<open>YYYY-MM-DD HH:MM:SS\<close> of the current time.
\<close>

record clock =
  date_now :: string
  random36 :: string
  iso_string :: string
  current_timestamp :: string

text \<open>The record sent to the client.\<close>

record assignment =
  a_id :: string
  a_title :: string
  a_subject :: string
  a_type :: string
  a_dueDate :: string
  a_description :: "string option"
  a_completed :: bool
  a_createdAt :: datetime
  a_updatedAt :: datetime

text \<open>The object literal that \<^verbatim>\<open>formatAssignment\<close> returns for a row.\<close>

definition format_row :: "row \<Rightarrow> assignment" where
  "format_row r =
     \<lparr>a_id = r_id r, a_title = r_title r, a_subject = r_subject r, a_type = r_type r,
      a_dueDate = r_due_date r, a_description = r_description r,
      a_completed = (r_completed r = 1), a_createdAt = r_created_at r,
      a_updatedAt = r_updated_at r\<rparr>"

text \<open>\<^verbatim>\<open>formatAssignment\<close>: \<^verbatim>\<open>null\<close> for no row.\<close>

fun formatAssignment :: "row option \<Rightarrow> assignment option" where
  "formatAssignment None = None"
| "formatAssignment (Some r) = Some (format_row r)"

text \<open>\<^verbatim>\<open>GET /api/assignments\<close>\<close>

definition listAssignments :: "string \<Rightarrow> table \<Rightarrow> (error + assignment option list) \<times> table" where
  "listAssignments uid tbl =
     (Inr (map (\<lambda>r. formatAssignment (Some r)) (stmt_getAssignments uid tbl)), tbl)"

text \<open>\<^verbatim>\<open>POST /api/assignments\<close>\<close>

definition createAssignment ::
  "clock \<Rightarrow> string \<Rightarrow> payload \<Rightarrow> table \<Rightarrow> (error + assignment option) \<times> table" where
  "createAssignment clk uid p tbl =
     (if \<not> truthy (p_title p) \<or> \<not> truthy (p_subject p) \<or> \<not> truthy (p_type p)
         \<or> \<not> truthy (p_dueDate p)
      then (Inl ValidationError, tbl)
      else
        let assignmentId = js_or (p_id p) (JStr (date_now clk)) in
        (case stmt_insertAssignment (current_timestamp clk) assignmentId uid (p_title p)
                (p_subject p) (p_type p) (p_dueDate p) (js_or (p_description p) JNull)
                (if truthy (p_completed p) then 1 else 0) tbl of
           Inl e \<Rightarrow> (Inl PersistenceFailure, tbl)
         | Inr tbl' \<Rightarrow>
             (Inr (formatAssignment (stmt_getAssignment (text_of assignmentId) uid tbl')),
              tbl')))"

text \<open>\<^verbatim>\<open>PUT /api/assignments/:id\<close>; the id is a path segment, a string.\<close>

definition updateAssignment ::
  "clock \<Rightarrow> string \<Rightarrow> string \<Rightarrow> payload \<Rightarrow> table \<Rightarrow> (error + assignment option) \<times> table" where
  "updateAssignment clk uid aid p tbl =
     (case stmt_getAssignment aid uid tbl of
        None \<Rightarrow> (Inl NotFound, tbl)
      | Some existing \<Rightarrow>
          (case stmt_updateAssignment (current_timestamp clk)
                  (js_or (p_title p) (JStr (r_title existing)))
                  (js_or (p_subject p) (JStr (r_subject existing)))
                  (js_or (p_type p) (JStr (r_type existing)))
                  (js_or (p_dueDate p) (JStr (r_due_date existing)))
                  (if p_description p \<noteq> JUndefined then p_description p
                   else js_of_nullable (r_description existing))
                  (if p_completed p \<noteq> JUndefined
                   then (if truthy (p_completed p) then 1 else 0)
                   else r_completed existing)
                  aid uid tbl of
             Inl e \<Rightarrow> (Inl PersistenceFailure, tbl)
           | Inr tbl' \<Rightarrow> (Inr (formatAssignment (stmt_getAssignment aid uid tbl')), tbl')))"

text \<open>\<^verbatim>\<open>DELETE /api/assignments/:id\<close>; \<open>Inr True\<close> is the body \<^verbatim>\<open>{ success: true }\<close>.\<close>

definition deleteAssignment :: "string \<Rightarrow> string \<Rightarrow> table \<Rightarrow> (error + bool) \<times> table" where
  "deleteAssignment uid aid tbl =
     (case stmt_getAssignment aid uid tbl of
        None \<Rightarrow> (Inl NotFound, tbl)
      | Some existing \<Rightarrow> (Inr True, stmt_deleteAssignment aid uid tbl))"

text \<open>
  \<^verbatim>\<open>db.transaction(f)\<close>: runs \<^verbatim>\<open>f\<close>; when it throws, the changes it made are rolled back
  and the exception is thrown again.
\<close>

definition transaction ::
  "(table \<Rightarrow> (error + 'a) \<times> table) \<Rightarrow> table \<Rightarrow> (error + 'a) \<times> table" where
  "transaction f tbl =
     (case f tbl of (Inl e, partial) \<Rightarrow> (Inl e, tbl) | (Inr v, tbl') \<Rightarrow> (Inr v, tbl'))"

text \<open>
  The loop \<^verbatim>\<open>for (const a of items)\<close> of \<^verbatim>\<open>syncTransaction\<close>. The environment is read
  anew in every iteration: \<open>clk i\<close> is what the \<open>i\<close>-th iteration reads. A statement that
  throws ends the loop, with the table as the earlier iterations left it.
\<close>

fun bulk_loop ::
  "affinity \<Rightarrow> (nat \<Rightarrow> clock) \<Rightarrow> string \<Rightarrow> nat \<Rightarrow> payload list \<Rightarrow> table
    \<Rightarrow> (error + unit) \<times> table" where
  "bulk_loop num clk userId i [] tbl = (Inr (), tbl)"
| "bulk_loop num clk userId i (a # items) tbl =
     (case stmt_bulkInsertAssignment num (current_timestamp (clk i))
             (js_or (p_id a) (JStr (date_now (clk i) @ random36 (clk i))))
             userId (p_title a) (p_subject a) (p_type a) (p_dueDate a)
             (js_or (p_description a) JNull)
             (if truthy (p_completed a) then 1 else 0)
             (js_or (p_createdAt a) (JStr (iso_string (clk i)))) tbl of
        Inl e \<Rightarrow> (Inl e, tbl)
      | Inr tbl' \<Rightarrow> bulk_loop num clk userId (Suc i) items tbl')"

text \<open>The function wrapped by \<^verbatim>\<open>db.transaction\<close>: delete all rows of the user, then the loop.\<close>

definition syncTransaction ::
  "affinity \<Rightarrow> (nat \<Rightarrow> clock) \<Rightarrow> string \<Rightarrow> payload list \<Rightarrow> table
    \<Rightarrow> (error + unit) \<times> table" where
  "syncTransaction num clk userId items tbl =
     transaction (\<lambda>t. bulk_loop num clk userId 0 items (stmt_deleteAllAssignments userId t))
       tbl"

text \<open>The \<^verbatim>\<open>assignments\<close> field of the body of a sync request: an array of items, or not.\<close>

datatype sync_body = NotArray | Items "payload list"

text \<open>\<^verbatim>\<open>POST /api/assignments/sync\<close>\<close>

definition syncAssignments ::
  "affinity \<Rightarrow> (nat \<Rightarrow> clock) \<Rightarrow> string \<Rightarrow> sync_body \<Rightarrow> table
    \<Rightarrow> (error + assignment option list) \<times> table" where
  "syncAssignments num clk uid body tbl =
     (case body of
        NotArray \<Rightarrow> (Inl ValidationError, tbl)
      | Items items \<Rightarrow>
          (case syncTransaction num clk uid items tbl of
             (Inl e, tbl') \<Rightarrow> (Inl PersistenceFailure, tbl')
           | (Inr u, tbl') \<Rightarrow>
               (Inr (map (\<lambda>r. formatAssignment (Some r)) (stmt_getAssignments uid tbl')),
                tbl')))"

section \<open>Notions used to state the properties\<close>



text \<open>The payload with no field at all.\<close>

definition empty_payload :: payload where
  "empty_payload =
     \<lparr>p_id = JUndefined, p_title = JUndefined, p_subject = JUndefined, p_type = JUndefined,
      p_dueDate = JUndefined, p_description = JUndefined, p_completed = JUndefined,
      p_createdAt = JUndefined\<rparr>"

text \<open>The id under which a create stores its row: the one supplied, or the clock's.\<close>

definition create_id :: "clock \<Rightarrow> payload \<Rightarrow> string" where
  "create_id clk p = text_of (js_or (p_id p) (JStr (date_now clk)))"

text \<open>The payloads, past validation, whose insert binds; and the row a create inserts.\<close>

definition create_ok :: "payload \<Rightarrow> bool" where
  "create_ok p =
     (p_id p \<noteq> JBool True \<and> is_text (p_title p) \<and> is_text (p_subject p) \<and> is_text (p_type p)
      \<and> is_text (p_dueDate p) \<and> p_description p \<noteq> JBool True)"

definition created_row :: "clock \<Rightarrow> string \<Rightarrow> payload \<Rightarrow> row" where
  "created_row clk uid p =
     \<lparr>r_id = create_id clk p, r_user_id = uid, r_title = text_of (p_title p),
      r_subject = text_of (p_subject p), r_type = text_of (p_type p),
      r_due_date = text_of (p_dueDate p),
      r_description = nullable_text_of (js_or (p_description p) JNull),
      r_completed = (if truthy (p_completed p) then 1 else 0),
      r_created_at = DText (current_timestamp clk),
      r_updated_at = DText (current_timestamp clk)\<rparr>"

text \<open>The row an update leaves in place of \<open>existing\<close>.\<close>

definition merged :: "clock \<Rightarrow> row \<Rightarrow> payload \<Rightarrow> row" where
  "merged clk existing p =
     existing\<lparr>r_title := text_of (js_or (p_title p) (JStr (r_title existing))),
              r_subject := text_of (js_or (p_subject p) (JStr (r_subject existing))),
              r_type := text_of (js_or (p_type p) (JStr (r_type existing))),
              r_due_date := text_of (js_or (p_dueDate p) (JStr (r_due_date existing))),
              r_description :=
                nullable_text_of (if p_description p \<noteq> JUndefined then p_description p
                                  else js_of_nullable (r_description existing)),
              r_completed :=
                (if p_completed p \<noteq> JUndefined then (if truthy (p_completed p) then 1 else 0)
                 else r_completed existing),
              r_updated_at := DText (current_timestamp clk)\<rparr>"

text \<open>The payloads whose update statement binds.\<close>

definition update_ok :: "payload \<Rightarrow> bool" where
  "update_ok p =
     (p_title p \<noteq> JBool True \<and> p_subject p \<noteq> JBool True \<and> p_type p \<noteq> JBool True
      \<and> p_dueDate p \<noteq> JBool True \<and> is_nullable_text (p_description p))"

text \<open>The sync items whose insert binds and meets the \<^verbatim>\<open>NOT NULL\<close> constraints.\<close>

definition item_ok :: "payload \<Rightarrow> bool" where
  "item_ok a =
     (p_id a \<noteq> JBool True \<and> is_text (p_title a) \<and> is_text (p_subject a) \<and> is_text (p_type a)
      \<and> is_text (p_dueDate a) \<and> p_description a \<noteq> JBool True \<and> p_createdAt a \<noteq> JBool True)"

text \<open>The row a sync inserts for an item, and the rows for a list of items from step \<open>i\<close> on.\<close>

definition item_row :: "affinity \<Rightarrow> clock \<Rightarrow> string \<Rightarrow> payload \<Rightarrow> row" where
  "item_row num c uid a =
     \<lparr>r_id = text_of (js_or (p_id a) (JStr (date_now c @ random36 c))), r_user_id = uid,
      r_title = text_of (p_title a), r_subject = text_of (p_subject a),
      r_type = text_of (p_type a), r_due_date = text_of (p_dueDate a),
      r_description = nullable_text_of (js_or (p_description a) JNull),
      r_completed = (if truthy (p_completed a) then 1 else 0),
      r_created_at = store_numeric num (text_of (js_or (p_createdAt a) (JStr (iso_string c)))),
      r_updated_at = DText (current_timestamp c)\<rparr>"

definition sync_rows ::
  "affinity \<Rightarrow> (nat \<Rightarrow> clock) \<Rightarrow> string \<Rightarrow> nat \<Rightarrow> payload list \<Rightarrow> row list" where
  "sync_rows num clk uid i items =
     map (\<lambda>(k, a). item_row num (clk k) uid a) (enumerate i items)"

text \<open>\<^verbatim>\<open>INSERT OR REPLACE\<close> of a row that binds, and of a list of them one after the other.\<close>

definition replace_row :: "row \<Rightarrow> table \<Rightarrow> table" where
  "replace_row new tbl = filter (\<lambda>r. r_id r \<noteq> r_id new) tbl @ [new]"

definition replace_rows :: "row list \<Rightarrow> table \<Rightarrow> table" where
  "replace_rows news tbl = fold replace_row news tbl"

text \<open>A response record that shows a row, with the flag as a boolean.\<close>

fun shows_row :: "row \<Rightarrow> assignment option \<Rightarrow> bool" where
  "shows_row r None = False"
| "shows_row r (Some a) = (a = format_row r \<and> (a_completed a \<longleftrightarrow> r_completed r = 1))"

section \<open>Sample data\<close>

definition clk0 :: clock where
  "clk0 = \<lparr>date_now = ''1717200000000'', random36 = ''k3j9x2dfa'',
           iso_string = ''2024-06-01T00:00:00.000Z'',
           current_timestamp = ''2024-06-01 00:00:00''\<rparr>"

text \<open>
  The timestamps of the sample data are no numeric literals, so the conversion of the
  \<^verbatim>\<open>DATETIME\<close> columns keeps each of them as a text. The sample conversion keeps every
  text; it stands for SQLite's on the texts of the sample data only.
\<close>

definition keeps_text :: affinity where
  "keeps_text s = None"

definition clks :: "nat \<Rightarrow> clock" where
  "clks i = (if i = 0 then clk0 else clk0\<lparr>random36 := ''q8w1e5rty''\<rparr>)"

definition essay :: payload where
  "essay = empty_payload\<lparr>p_title := JStr ''Essay'', p_subject := JStr ''English'',
                         p_type := JStr ''homework'', p_dueDate := JStr ''2024-06-01''\<rparr>"

definition lab_bob :: row where
  "lab_bob = \<lparr>r_id = ''x1'', r_user_id = ''bob'', r_title = ''Lab'', r_subject = ''Physics'',
              r_type = ''lab'', r_due_date = ''2024-05-20'', r_description = None,
              r_completed = 0, r_created_at = DText ''2024-05-01 08:00:00'',
              r_updated_at = DText ''2024-05-01 08:00:00''\<rparr>"

definition quiz_alice :: row where
  "quiz_alice = \<lparr>r_id = ''a1'', r_user_id = ''alice'', r_title = ''Quiz'', r_subject = ''Maths'',
                 r_type = ''test'', r_due_date = ''2024-05-22'',
                 r_description = Some ''chapter 3'', r_completed = 1,
                 r_created_at = DText ''2024-05-02 09:00:00'',
                 r_updated_at = DText ''2024-05-02 09:00:00''\<rparr>"

definition poster_alice :: row where
  "poster_alice = quiz_alice\<lparr>r_id := ''a2'', r_title := ''Poster'', r_subject := ''Art'',
                             r_type := ''project'', r_due_date := ''2024-05-10'',
                             r_description := None, r_completed := 0\<rparr>"

definition reading_alice :: row where
  "reading_alice = quiz_alice\<lparr>r_id := ''a3'', r_title := ''Reading'', r_subject := ''English'',
                              r_type := ''homework'', r_completed := 0\<rparr>"

definition sample_table :: table where
  "sample_table = [quiz_alice, lab_bob, poster_alice, reading_alice]"

section \<open>Binding and the JavaScript operators\<close>

lemma is_text_js_or_text: "is_text (js_or v (JStr s)) \<longleftrightarrow> v \<noteq> JBool True"
  by (cases v) (auto simp: js_or_def)

lemma is_nullable_js_or_null: "is_nullable_text (js_or v JNull) \<longleftrightarrow> v \<noteq> JBool True"
  by (cases v) (auto simp: js_or_def)

lemma is_nullable_js_of_nullable: "is_nullable_text (js_of_nullable d)"
  by (cases d) auto




section \<open>Looking a row up\<close>

lemma find_append_fresh:
  "aid \<notin> set (map r_id tbl) \<Longrightarrow>
   find (\<lambda>r. r_id r = aid \<and> r_user_id r = uid) (tbl @ [n]) =
     (if r_id n = aid \<and> r_user_id n = uid then Some n else None)"
  by (induction tbl) auto

lemma find_map_update:
  "find P tbl = Some ex \<Longrightarrow> (\<And>r. P r \<Longrightarrow> P (g r)) \<Longrightarrow>
   find P (map (\<lambda>r. if P r then g r else r) tbl) = Some (g ex)"
  by (induction tbl) (auto split: if_splits)

lemma find_filter_out: "find P (filter (\<lambda>r. \<not> P r) tbl) = None"
  by (induction tbl) auto

lemma find_SomeD: "find P tbl = Some ex \<Longrightarrow> ex \<in> set tbl \<and> P ex"
  by (induction tbl) (auto split: if_splits)

lemma filter_out_unique:
  "distinct (map r_id tbl) \<Longrightarrow> find (\<lambda>r. r_id r = aid \<and> r_user_id r = uid) tbl = Some ex \<Longrightarrow>
   filter (\<lambda>r. \<not> (r_id r = aid \<and> r_user_id r = uid)) tbl = remove1 ex tbl"
proof (induction tbl)
  case Nil
  then show ?case by simp
next
  case (Cons r tbl)
  show ?case
  proof (cases "r_id r = aid \<and> r_user_id r = uid")
    case True
    with Cons.prems have ex: "ex = r" and fresh: "aid \<notin> r_id ` set tbl" by auto
    from fresh have "filter (\<lambda>r. \<not> (r_id r = aid \<and> r_user_id r = uid)) tbl = tbl"
      by (auto simp: filter_id_conv)
    with True ex show ?thesis by simp
  next
    case False
    with Cons.prems have f: "find (\<lambda>r. r_id r = aid \<and> r_user_id r = uid) tbl = Some ex"
      and d: "distinct (map r_id tbl)" by auto
    from f have "ex \<noteq> r" using False find_SomeD [OF f] by auto
    with False Cons.IH [OF d f] show ?thesis by auto
  qed
qed

section \<open>The handlers, case by case\<close>

lemma create_cases:
  "createAssignment clk uid p tbl =
     (if \<not> truthy (p_title p) \<or> \<not> truthy (p_subject p) \<or> \<not> truthy (p_type p)
         \<or> \<not> truthy (p_dueDate p)
      then (Inl ValidationError, tbl)
      else if create_ok p \<and> create_id clk p \<notin> set (map r_id tbl)
      then (Inr (Some (format_row (created_row clk uid p))), tbl @ [created_row clk uid p])
      else (Inl PersistenceFailure, tbl))"
  by (simp add: createAssignment_def stmt_insertAssignment_def stmt_getAssignment_def Let_def
      create_ok_def create_id_def created_row_def is_text_js_or_text is_nullable_js_or_null
      find_append_fresh)

lemma update_missing:
  "stmt_getAssignment aid uid tbl = None \<Longrightarrow>
   updateAssignment clk uid aid p tbl = (Inl NotFound, tbl)"
  by (simp add: updateAssignment_def)

lemma update_rejected:
  "\<not> update_ok p \<Longrightarrow>
   stmt_updateAssignment ts (js_or (p_title p) (JStr t)) (js_or (p_subject p) (JStr s))
      (js_or (p_type p) (JStr ty)) (js_or (p_dueDate p) (JStr d))
      (if p_description p \<noteq> JUndefined then p_description p else js_of_nullable de)
      c aid uid tbl = Inl PersistenceFailure"
  by (auto simp: stmt_updateAssignment_def update_ok_def is_text_js_or_text
      is_nullable_js_of_nullable)

lemma update_found_bad:
  "stmt_getAssignment aid uid tbl = Some ex \<Longrightarrow> \<not> update_ok p \<Longrightarrow>
   updateAssignment clk uid aid p tbl = (Inl PersistenceFailure, tbl)"
  by (simp add: updateAssignment_def update_rejected)

lemma update_found_ok:
  assumes found: "stmt_getAssignment aid uid tbl = Some ex" and ok: "update_ok p"
  shows "\<exists>tbl'. updateAssignment clk uid aid p tbl = (Inr (Some (format_row (merged clk ex p))), tbl')
           \<and> stmt_getAssignment aid uid tbl' = Some (merged clk ex p)
           \<and> filter (\<lambda>r. \<not> (r_id r = aid \<and> r_user_id r = uid)) tbl'
               = filter (\<lambda>r. \<not> (r_id r = aid \<and> r_user_id r = uid)) tbl
           \<and> map r_id tbl' = map r_id tbl \<and> map r_user_id tbl' = map r_user_id tbl"
proof -
  let ?P = "\<lambda>r. r_id r = aid \<and> r_user_id r = uid"
  let ?g = "\<lambda>r. r\<lparr>r_title := text_of (js_or (p_title p) (JStr (r_title ex))),
                   r_subject := text_of (js_or (p_subject p) (JStr (r_subject ex))),
                   r_type := text_of (js_or (p_type p) (JStr (r_type ex))),
                   r_due_date := text_of (js_or (p_dueDate p) (JStr (r_due_date ex))),
                   r_description :=
                     nullable_text_of (if p_description p \<noteq> JUndefined then p_description p
                                       else js_of_nullable (r_description ex)),
                   r_completed :=
                     (if p_completed p \<noteq> JUndefined
                      then (if truthy (p_completed p) then 1 else 0) else r_completed ex),
                   r_updated_at := DText (current_timestamp clk)\<rparr>"
  let ?tbl' = "map (\<lambda>r. if ?P r then ?g r else r) tbl"
  have stmt: "stmt_updateAssignment (current_timestamp clk)
      (js_or (p_title p) (JStr (r_title ex))) (js_or (p_subject p) (JStr (r_subject ex)))
      (js_or (p_type p) (JStr (r_type ex))) (js_or (p_dueDate p) (JStr (r_due_date ex)))
      (if p_description p \<noteq> JUndefined then p_description p
       else js_of_nullable (r_description ex))
      (if p_completed p \<noteq> JUndefined then (if truthy (p_completed p) then 1 else 0)
       else r_completed ex) aid uid tbl = Inr ?tbl'"
    using ok by (simp add: stmt_updateAssignment_def update_ok_def is_text_js_or_text
        is_nullable_js_of_nullable)
  have g: "?g ex = merged clk ex p"
    by (simp add: merged_def)
  from found have "find ?P tbl = Some ex"
    by (simp add: stmt_getAssignment_def)
  then have "find ?P ?tbl' = Some (?g ex)"
    by (rule find_map_update) simp
  then have get: "stmt_getAssignment aid uid ?tbl' = Some (merged clk ex p)"
    by (simp only: stmt_getAssignment_def g)
  have run: "updateAssignment clk uid aid p tbl
      = (Inr (Some (format_row (merged clk ex p))), ?tbl')"
    by (simp only: updateAssignment_def found option.case stmt sum.case get
        formatAssignment.simps)
  have rest: "filter (\<lambda>r. \<not> ?P r) ?tbl' = filter (\<lambda>r. \<not> ?P r) tbl"
    by (induction tbl) auto
  have ids: "map r_id ?tbl' = map r_id tbl" "map r_user_id ?tbl' = map r_user_id tbl"
    by (induction tbl) auto
  from run get rest ids show ?thesis by blast
qed

section \<open>The sync loop\<close>

lemma bulk_step:
  "stmt_bulkInsertAssignment num (current_timestamp c)
      (js_or (p_id a) (JStr (date_now c @ random36 c))) uid (p_title a) (p_subject a)
      (p_type a) (p_dueDate a) (js_or (p_description a) JNull)
      (if truthy (p_completed a) then 1 else 0)
      (js_or (p_createdAt a) (JStr (iso_string c))) tbl
   = (if item_ok a then Inr (replace_row (item_row num c uid a) tbl) else Inl PersistenceFailure)"
  by (simp add: stmt_bulkInsertAssignment_def item_ok_def replace_row_def item_row_def
      is_text_js_or_text is_nullable_js_or_null)

lemma bulk_loop_ok:
  "list_all item_ok items \<Longrightarrow>
   bulk_loop num clk uid i items tbl = (Inr (), replace_rows (sync_rows num clk uid i items) tbl)"
proof (induction items arbitrary: i tbl)
  case Nil
  show ?case by (simp add: replace_rows_def sync_rows_def)
next
  case (Cons a items)
  from Cons.prems have a: "item_ok a" and rest: "list_all item_ok items" by simp_all
  have "bulk_loop num clk uid i (a # items) tbl
      = bulk_loop num clk uid (Suc i) items (replace_row (item_row num (clk i) uid a) tbl)"
    using a by (simp only: bulk_loop.simps bulk_step if_True sum.case)
  also have "\<dots> = (Inr (), replace_rows (sync_rows num clk uid (Suc i) items)
      (replace_row (item_row num (clk i) uid a) tbl))"
    by (rule Cons.IH [OF rest])
  finally show ?case by (simp add: replace_rows_def sync_rows_def)
qed

lemma bulk_loop_bad:
  "\<not> list_all item_ok items \<Longrightarrow> fst (bulk_loop num clk uid i items tbl) = Inl PersistenceFailure"
proof (induction items arbitrary: i tbl)
  case Nil
  then show ?case by simp
next
  case (Cons a items)
  show ?case
  proof (cases "item_ok a")
    case True
    with Cons.prems have "\<not> list_all item_ok items" by simp
    then have "fst (bulk_loop num clk uid (Suc i) items (replace_row (item_row num (clk i) uid a) tbl))
        = Inl PersistenceFailure"
      by (rule Cons.IH)
    with True show ?thesis by (simp only: bulk_loop.simps bulk_step if_True sum.case)
  next
    case False
    then show ?thesis by (simp only: bulk_loop.simps bulk_step if_False sum.case fst_conv)
  qed
qed

lemma sync_cases:
  "syncAssignments num clk uid (Items items) tbl =
     (if list_all item_ok items
      then (Inr (map (\<lambda>r. Some (format_row r))
                  (stmt_getAssignments uid
                     (replace_rows (sync_rows num clk uid 0 items)
                        (stmt_deleteAllAssignments uid tbl)))),
            replace_rows (sync_rows num clk uid 0 items) (stmt_deleteAllAssignments uid tbl))
      else (Inl PersistenceFailure, tbl))"
proof (cases "list_all item_ok items")
  case True
  then show ?thesis
    by (simp add: syncAssignments_def syncTransaction_def transaction_def bulk_loop_ok)
next
  case False
  obtain r t where rt: "bulk_loop num clk uid 0 items (stmt_deleteAllAssignments uid tbl) = (r, t)"
    by (cases "bulk_loop num clk uid 0 items (stmt_deleteAllAssignments uid tbl)")
  with bulk_loop_bad [OF False, of num clk uid 0 "stmt_deleteAllAssignments uid tbl"]
  have "r = Inl PersistenceFailure" by simp
  with rt False show ?thesis
    by (simp add: syncAssignments_def syncTransaction_def transaction_def)
qed

section \<open>What a list of replacing inserts leaves\<close>

lemma replace_rows_Cons: "replace_rows (n # news) tbl = replace_rows news (replace_row n tbl)"
  by (simp add: replace_rows_def)


lemma rows_of_replace_row:
  "rows_of u (replace_row n tbl) =
     (if r_user_id n = u then replace_row n (rows_of u tbl)
      else filter (\<lambda>r. r_id r \<noteq> r_id n) (rows_of u tbl))"
  by (auto simp: rows_of_def replace_row_def intro: filter_cong)


lemma rows_of_replace_rows_other:
  "\<forall>n \<in> set news. r_user_id n \<noteq> u \<Longrightarrow>
   rows_of u (replace_rows news tbl)
     = filter (\<lambda>r. r_id r \<notin> set (map r_id news)) (rows_of u tbl)"
proof (induction news arbitrary: tbl)
  case Nil
  show ?case by (simp add: replace_rows_def)
next
  case (Cons n news)
  then show ?case
    by (auto simp: replace_rows_Cons rows_of_replace_row intro: filter_cong)
qed

lemma item_row_created_at:
  "r_created_at (item_row num c uid a)
     = (case num (text_of (js_or (p_createdAt a) (JStr (iso_string c)))) of
          None \<Rightarrow> DText (text_of (js_or (p_createdAt a) (JStr (iso_string c))))
        | Some n \<Rightarrow> DNumber n)"
  by (simp add: item_row_def store_numeric_def)

lemma item_row_numeric_created_at:
  "p_createdAt a = JStr s \<Longrightarrow> s \<noteq> [] \<Longrightarrow> num s = Some n
   \<Longrightarrow> a_createdAt (format_row (item_row num c uid a)) = DNumber n"
  by (simp add: item_row_def store_numeric_def format_row_def js_or_def)

lemma sync_rows_owner: "\<forall>n \<in> set (sync_rows num clk uid i items). r_user_id n = uid"
  by (auto simp: sync_rows_def item_row_def)



lemma rows_of_deleteAll_other:
  "u \<noteq> uid \<Longrightarrow> rows_of u (stmt_deleteAllAssignments uid tbl) = rows_of u tbl"
  by (auto simp: rows_of_def stmt_deleteAllAssignments_def intro: filter_cong)


section \<open>The primary key is kept\<close>

lemma pk_ok_replace_row: "pk_ok tbl \<Longrightarrow> pk_ok (replace_row n tbl)"
  by (auto simp: pk_ok_def replace_row_def distinct_map_filter)

lemma pk_ok_replace_rows: "pk_ok tbl \<Longrightarrow> pk_ok (replace_rows news tbl)"
  by (induction news arbitrary: tbl) (simp_all add: replace_rows_def pk_ok_replace_row)

lemma pk_ok_create: "pk_ok tbl \<Longrightarrow> pk_ok (snd (createAssignment clk uid p tbl))"
  by (auto simp: create_cases pk_ok_def created_row_def)

lemma pk_ok_update: "pk_ok tbl \<Longrightarrow> pk_ok (snd (updateAssignment clk uid aid p tbl))"
proof (cases "stmt_getAssignment aid uid tbl")
  case None
  assume "pk_ok tbl"
  with None show ?thesis by (simp add: update_missing)
next
  case (Some ex)
  assume pk: "pk_ok tbl"
  show ?thesis
  proof (cases "update_ok p")
    case True
    from update_found_ok [OF Some True, of clk] obtain tbl' where
      "updateAssignment clk uid aid p tbl = (Inr (Some (format_row (merged clk ex p))), tbl')"
      "map r_id tbl' = map r_id tbl" by blast
    with pk show ?thesis by (simp add: pk_ok_def)
  next
    case False
    with Some pk show ?thesis by (simp add: update_found_bad)
  qed
qed

lemma pk_ok_delete: "pk_ok tbl \<Longrightarrow> pk_ok (snd (deleteAssignment uid aid tbl))"
  by (auto simp: deleteAssignment_def stmt_deleteAssignment_def pk_ok_def distinct_map_filter
      split: option.splits)

lemma pk_ok_sync: "pk_ok tbl \<Longrightarrow> pk_ok (snd (syncAssignments num clk uid body tbl))"
proof (cases body)
  case NotArray
  assume "pk_ok tbl"
  with NotArray show ?thesis by (simp add: syncAssignments_def)
next
  case (Items items)
  assume "pk_ok tbl"
  then have "pk_ok (stmt_deleteAllAssignments uid tbl)"
    by (simp add: pk_ok_def stmt_deleteAllAssignments_def distinct_map_filter)
  then have "pk_ok (replace_rows (sync_rows num clk uid 0 items) (stmt_deleteAllAssignments uid tbl))"
    by (rule pk_ok_replace_rows)
  with \<open>pk_ok tbl\<close> Items show ?thesis by (simp add: sync_cases)
qed

section \<open>What the single-row handlers do to another user's rows\<close>

lemma create_other_rows:
  "u \<noteq> uid \<Longrightarrow> rows_of u (snd (createAssignment clk uid p tbl)) = rows_of u tbl"
  by (simp add: create_cases rows_of_def created_row_def)

lemma rows_of_outside:
  assumes "u \<noteq> uid"
  shows "rows_of u tbl = rows_of u (filter (\<lambda>r. \<not> (r_id r = aid \<and> r_user_id r = uid)) tbl)"
  using assms by (auto simp: rows_of_def intro: filter_cong)

lemma update_other_rows:
  assumes "u \<noteq> uid"
  shows "rows_of u (snd (updateAssignment clk uid aid p tbl)) = rows_of u tbl"
proof (cases "stmt_getAssignment aid uid tbl")
  case None
  then show ?thesis by (simp add: update_missing)
next
  case (Some ex)
  show ?thesis
  proof (cases "update_ok p")
    case True
    from update_found_ok [OF Some True, of clk] obtain tbl' where
      run: "updateAssignment clk uid aid p tbl = (Inr (Some (format_row (merged clk ex p))), tbl')"
      and rest: "filter (\<lambda>r. \<not> (r_id r = aid \<and> r_user_id r = uid)) tbl'
               = filter (\<lambda>r. \<not> (r_id r = aid \<and> r_user_id r = uid)) tbl" by blast
    have "rows_of u tbl' = rows_of u tbl"
      using rows_of_outside [OF assms, of tbl' aid] rows_of_outside [OF assms, of tbl aid] rest
      by simp
    with run show ?thesis by simp
  next
    case False
    with Some show ?thesis by (simp add: update_found_bad)
  qed
qed

lemma delete_other_rows:
  assumes "u \<noteq> uid"
  shows "rows_of u (snd (deleteAssignment uid aid tbl)) = rows_of u tbl"
  using rows_of_outside [OF assms, of tbl aid]
  by (simp add: deleteAssignment_def stmt_deleteAssignment_def split: option.splits)

lemma foreign_id_not_found:
  assumes "pk_ok tbl" and "r \<in> set tbl" and "r_id r = aid" and "r_user_id r \<noteq> uid"
  shows "stmt_getAssignment aid uid tbl = None"
proof -
  have "\<not> (\<exists>x. x \<in> set tbl \<and> r_id x = aid \<and> r_user_id x = uid)"
  proof
    assume "\<exists>x. x \<in> set tbl \<and> r_id x = aid \<and> r_user_id x = uid"
    then obtain x where x: "x \<in> set tbl" "r_id x = aid" "r_user_id x = uid" by blast
    from assms(1) have "inj_on r_id (set tbl)" by (simp add: pk_ok_def distinct_map)
    with x assms(2,3) have "x = r" by (auto dest: inj_onD)
    with x assms(4) show False by simp
  qed
  then show ?thesis by (simp add: stmt_getAssignment_def find_None_iff)
qed

section \<open>Delete\<close>

text \<open>
  Claim C7. \<open>deleteAssignment\<close> answers \<open>NotFound\<close> and leaves the table as it is when
  the user has no assignment with the id. When the user has one, it answers with the
  acknowledgment, the table loses exactly that row, and a second delete with the same id
  answers \<open>NotFound\<close> and changes nothing.
\<close>

theorem delete_semantics:
  "(stmt_getAssignment aid uid tbl = None \<longrightarrow> deleteAssignment uid aid tbl = (Inl NotFound, tbl))
   \<and> (pk_ok tbl \<longrightarrow> stmt_getAssignment aid uid tbl = Some ex \<longrightarrow>
        ex \<in> set tbl \<and> r_id ex = aid \<and> r_user_id ex = uid
        \<and> deleteAssignment uid aid tbl = (Inr True, remove1 ex tbl)
        \<and> ex \<notin> set (remove1 ex tbl)
        \<and> deleteAssignment uid aid (remove1 ex tbl) = (Inl NotFound, remove1 ex tbl))"
proof (intro conjI impI)
  assume "stmt_getAssignment aid uid tbl = None"
  then show "deleteAssignment uid aid tbl = (Inl NotFound, tbl)"
    by (simp add: deleteAssignment_def)
next
  assume pk: "pk_ok tbl" and found: "stmt_getAssignment aid uid tbl = Some ex"
  let ?P = "\<lambda>r. r_id r = aid \<and> r_user_id r = uid"
  from found have f: "find ?P tbl = Some ex" by (simp add: stmt_getAssignment_def)
  from find_SomeD [OF f] show "ex \<in> set tbl" "r_id ex = aid" "r_user_id ex = uid" by simp_all
  from pk have d: "distinct (map r_id tbl)" by (simp add: pk_ok_def)
  have gone: "stmt_deleteAssignment aid uid tbl = remove1 ex tbl"
    unfolding stmt_deleteAssignment_def by (rule filter_out_unique [OF d f])
  with found show "deleteAssignment uid aid tbl = (Inr True, remove1 ex tbl)"
    by (simp add: deleteAssignment_def)
  from d have "distinct tbl" by (simp add: distinct_map)
  then show "ex \<notin> set (remove1 ex tbl)" by simp
  have "stmt_getAssignment aid uid (stmt_deleteAssignment aid uid tbl) = None"
    unfolding stmt_getAssignment_def stmt_deleteAssignment_def by (rule find_filter_out)
  then show "deleteAssignment uid aid (remove1 ex tbl) = (Inl NotFound, remove1 ex tbl)"
    by (simp add: gone deleteAssignment_def)
qed

theorem delete_semantics_witness:
  "pk_ok sample_table \<and> stmt_getAssignment ''a2'' ''alice'' sample_table = Some poster_alice
   \<and> deleteAssignment ''alice'' ''a2'' sample_table
       = (Inr True, [quiz_alice, lab_bob, reading_alice])
   \<and> deleteAssignment ''alice'' ''a2'' [quiz_alice, lab_bob, reading_alice]
       = (Inl NotFound, [quiz_alice, lab_bob, reading_alice])
   \<and> stmt_getAssignment ''x1'' ''alice'' sample_table = None
   \<and> deleteAssignment ''alice'' ''x1'' sample_table = (Inl NotFound, sample_table)"
proof -
  have pk: "pk_ok sample_table"
    by (simp add: pk_ok_def sample_table_def quiz_alice_def lab_bob_def poster_alice_def
        reading_alice_def)
  have found: "stmt_getAssignment ''a2'' ''alice'' sample_table = Some poster_alice"
    by (simp add: stmt_getAssignment_def sample_table_def quiz_alice_def lab_bob_def
        poster_alice_def reading_alice_def)
  have missing: "stmt_getAssignment ''x1'' ''alice'' sample_table = None"
    by (simp add: stmt_getAssignment_def sample_table_def quiz_alice_def lab_bob_def
        poster_alice_def reading_alice_def)
  have rest: "remove1 poster_alice sample_table = [quiz_alice, lab_bob, reading_alice]"
    by (simp add: sample_table_def quiz_alice_def lab_bob_def poster_alice_def
        reading_alice_def)
  from delete_semantics [of "''a2''" "''alice''" sample_table poster_alice]
    delete_semantics [of "''x1''" "''alice''" sample_table poster_alice]
    pk found missing rest
  show ?thesis by simp
qed

section \<open>List\<close>

text \<open>
  Claim C9. \<open>listAssignments\<close> returns the records of all rows of the user and of no other
  row, ordered by due date ascending, rows with the same due date in the order of their
  insertion, and it leaves the table as it is.
\<close>

theorem list_ordering:
  "\<exists>xs. listAssignments uid tbl = (Inr (map Some xs), tbl)
      \<and> mset xs = mset (map format_row (rows_of uid tbl))
      \<and> sorted (map a_dueDate xs)
      \<and> (\<forall>d. filter (\<lambda>a. a_dueDate a = d) xs
               = map format_row (filter (\<lambda>r. r_due_date r = d) (rows_of uid tbl)))"
proof -
  let ?rows = "sort_key r_due_date (rows_of uid tbl)"
  let ?xs = "map format_row ?rows"
  have due: "a_dueDate \<circ> format_row = r_due_date"
    by (rule ext) (simp add: format_row_def)
  have run: "listAssignments uid tbl = (Inr (map Some ?xs), tbl)"
    by (simp add: listAssignments_def stmt_getAssignments_def rows_of_def)
  have perm: "mset ?xs = mset (map format_row (rows_of uid tbl))"
    by simp
  have ord: "sorted (map a_dueDate ?xs)"
    by (simp add: due)
  have stable: "filter (\<lambda>a. a_dueDate a = d) ?xs
      = map format_row (filter (\<lambda>r. r_due_date r = d) (rows_of uid tbl))" for d
  proof -
    have "filter (\<lambda>a. a_dueDate a = d) ?xs
        = map format_row (filter (\<lambda>r. r_due_date r = d) ?rows)"
      by (simp add: filter_map o_def format_row_def)
    also have "filter (\<lambda>r. r_due_date r = d) ?rows
        = filter (\<lambda>r. r_due_date r = d) (rows_of uid tbl)"
      by (rule sort_key_stable)
    finally show ?thesis .
  qed
  from run perm ord stable show ?thesis by blast
qed

theorem list_ordering_witness:
  "listAssignments ''alice'' sample_table
     = (Inr [Some (format_row poster_alice), Some (format_row quiz_alice),
             Some (format_row reading_alice)], sample_table)
   \<and> a_dueDate (format_row poster_alice) = ''2024-05-10''
   \<and> a_dueDate (format_row quiz_alice) = ''2024-05-22''
   \<and> a_dueDate (format_row reading_alice) = ''2024-05-22''"
  using list_ordering [of "''alice''" sample_table]
  by (simp add: listAssignments_def stmt_getAssignments_def sample_table_def quiz_alice_def
      lab_bob_def poster_alice_def reading_alice_def format_row_def)

section \<open>Update\<close>







section \<open>Create\<close>







section \<open>Sync\<close>


text \<open>
  Claim C3. A sync that answers with an error leaves the table exactly as it was before
  the request; and a sync fails, with \<open>PersistenceFailure\<close>, as soon as one item of the list
  cannot be inserted, wherever in the list it stands.
\<close>

theorem sync_atomic:
  "(\<forall>e tbl'. syncAssignments num clk uid body tbl = (Inl e, tbl') \<longrightarrow> tbl' = tbl)
   \<and> (\<not> list_all item_ok items
        \<longrightarrow> syncAssignments num clk uid (Items items) tbl = (Inl PersistenceFailure, tbl))"
proof (intro conjI allI impI)
  fix e tbl'
  assume run: "syncAssignments num clk uid body tbl = (Inl e, tbl')"
  show "tbl' = tbl"
  proof (cases body)
    case NotArray
    with run show ?thesis by (simp add: syncAssignments_def)
  next
    case (Items xs)
    with run show ?thesis by (simp add: sync_cases split: if_splits)
  qed
next
  assume "\<not> list_all item_ok items"
  then show "syncAssignments num clk uid (Items items) tbl = (Inl PersistenceFailure, tbl)"
    by (simp add: sync_cases)
qed

theorem sync_atomic_witness:
  "\<not> list_all item_ok [essay, essay\<lparr>p_title := JUndefined\<rparr>]
   \<and> syncAssignments keeps_text clks ''alice'' (Items [essay, essay\<lparr>p_title := JUndefined\<rparr>]) sample_table
       = (Inl PersistenceFailure, sample_table)
   \<and> bulk_loop keeps_text clks ''alice'' 0 [essay, essay\<lparr>p_title := JUndefined\<rparr>]
         (stmt_deleteAllAssignments ''alice'' sample_table)
       = (Inl PersistenceFailure, [lab_bob, item_row keeps_text clk0 ''alice'' essay])"
proof -
  have bad: "\<not> list_all item_ok [essay, essay\<lparr>p_title := JUndefined\<rparr>]"
    by (simp add: item_ok_def essay_def empty_payload_def)
  have inside: "bulk_loop keeps_text clks ''alice'' 0 [essay, essay\<lparr>p_title := JUndefined\<rparr>]
         (stmt_deleteAllAssignments ''alice'' sample_table)
       = (Inl PersistenceFailure, [lab_bob, item_row keeps_text clk0 ''alice'' essay])"
    by (simp add: stmt_bulkInsertAssignment_def stmt_deleteAllAssignments_def
        essay_def empty_payload_def clks_def item_row_def js_or_def clk0_def sample_table_def
        quiz_alice_def lab_bob_def poster_alice_def reading_alice_def)
  from sync_atomic [of keeps_text clks "''alice''" "Items [essay, essay\<lparr>p_title := JUndefined\<rparr>]"
      sample_table "[essay, essay\<lparr>p_title := JUndefined\<rparr>]"] bad inside
  show ?thesis by simp
qed




section \<open>Isolation of users\<close>

text \<open>
  A successful sync leaves of another user's rows those whose id no item of the payload
  takes: the others are deleted by the replacing insert.
\<close>

lemma sync_other_rows:
  assumes "u \<noteq> uid" and "syncAssignments num clk uid (Items items) tbl = (Inr out, tbl')"
  shows "rows_of u tbl'
    = filter (\<lambda>r. r_id r \<notin> set (map r_id (sync_rows num clk uid 0 items))) (rows_of u tbl)"
proof -
  from assms(2) have tbl': "tbl' = replace_rows (sync_rows num clk uid 0 items)
      (stmt_deleteAllAssignments uid tbl)"
    by (auto simp: sync_cases split: if_splits)
  from assms(1) have "\<forall>n \<in> set (sync_rows num clk uid 0 items). r_user_id n \<noteq> u"
    using sync_rows_owner [of num clk uid 0 items] by auto
  then have "rows_of u tbl'
      = filter (\<lambda>r. r_id r \<notin> set (map r_id (sync_rows num clk uid 0 items)))
          (rows_of u (stmt_deleteAllAssignments uid tbl))"
    unfolding tbl' by (rule rows_of_replace_rows_other)
  with assms(1) show ?thesis by (simp add: rows_of_deleteAll_other)
qed

text \<open>
  Claim C1 fails on the code, in sync. Bob owns the row with id \<open>x1\<close>. Alice syncs one
  item that carries this id: the sync succeeds, Bob has no row left, and the id now names
  a row of Alice. Had the id named no row, Bob's row would have stayed.
\<close>

theorem sync_deletes_foreign_row:
  "rows_of ''bob'' sample_table = [lab_bob] \<and> r_id lab_bob = ''x1''
   \<and> syncAssignments keeps_text clks ''alice'' (Items [essay\<lparr>p_id := JStr ''x1''\<rparr>]) sample_table
       = (Inr [Some (format_row (item_row keeps_text clk0 ''alice'' (essay\<lparr>p_id := JStr ''x1''\<rparr>)))],
          [item_row keeps_text clk0 ''alice'' (essay\<lparr>p_id := JStr ''x1''\<rparr>)])
   \<and> rows_of ''bob'' [item_row keeps_text clk0 ''alice'' (essay\<lparr>p_id := JStr ''x1''\<rparr>)] = []
   \<and> stmt_getAssignment ''x1'' ''bob'' [item_row keeps_text clk0 ''alice'' (essay\<lparr>p_id := JStr ''x1''\<rparr>)]
       = None
   \<and> rows_of ''bob'' (snd (syncAssignments keeps_text clks ''alice'' (Items [essay\<lparr>p_id := JStr ''x2''\<rparr>])
         sample_table)) = [lab_bob]"
  by (simp add: sync_cases item_ok_def sync_rows_def replace_rows_def replace_row_def
      stmt_deleteAllAssignments_def stmt_getAssignments_def stmt_getAssignment_def rows_of_def
      item_row_def js_or_def essay_def empty_payload_def clks_def clk0_def sample_table_def
      quiz_alice_def lab_bob_def poster_alice_def reading_alice_def)

section \<open>The flag at the boundary\<close>

lemma shows_row_format: "shows_row r (Some (format_row r))"
  by (simp add: format_row_def)

lemma getAssignments_subset: "set (stmt_getAssignments uid tbl) \<subseteq> set tbl"
  by (auto simp: stmt_getAssignments_def)

lemma listing_shows_rows:
  "x \<in> set (map (\<lambda>r. Some (format_row r)) (stmt_getAssignments uid tbl))
   \<Longrightarrow> \<exists>r\<in>set tbl. shows_row r x"
  using getAssignments_subset [of uid tbl] shows_row_format
  by (auto simp del: shows_row.simps)

text \<open>
  Claim C8. Every record that list, sync, create or update answers with is the record of
  a row of the resulting table, and its \<open>completed\<close> is the boolean that is true exactly
  when the stored flag is 1. A create stores 1 exactly for a truthy \<open>completed\<close>, so the
  record of a create without \<open>completed\<close> carries \<open>false\<close>.
\<close>

theorem completed_is_boolean:
  "(\<forall>xs tbl'. listAssignments uid tbl = (Inr xs, tbl')
       \<longrightarrow> (\<forall>x\<in>set xs. \<exists>r\<in>set tbl'. shows_row r x))
   \<and> (\<forall>xs tbl'. syncAssignments num clock uid body tbl = (Inr xs, tbl')
       \<longrightarrow> (\<forall>x\<in>set xs. \<exists>r\<in>set tbl'. shows_row r x))
   \<and> (\<forall>x tbl'. createAssignment clk uid p tbl = (Inr x, tbl')
       \<longrightarrow> (\<exists>r\<in>set tbl'. shows_row r x \<and> (r_completed r = 1 \<longleftrightarrow> truthy (p_completed p))))
   \<and> (\<forall>x tbl'. updateAssignment clk uid aid p tbl = (Inr x, tbl')
       \<longrightarrow> (\<exists>r\<in>set tbl'. shows_row r x))
   \<and> (\<forall>a tbl'. createAssignment clk uid p tbl = (Inr (Some a), tbl')
       \<longrightarrow> p_completed p = JUndefined \<longrightarrow> \<not> a_completed a)"
proof -
  have list: "\<forall>xs tbl'. listAssignments uid tbl = (Inr xs, tbl')
       \<longrightarrow> (\<forall>x\<in>set xs. \<exists>r\<in>set tbl'. shows_row r x)"
    using listing_shows_rows [of _ uid tbl] by (auto simp: listAssignments_def)
  have sync: "\<forall>xs tbl'. syncAssignments num clock uid body tbl = (Inr xs, tbl')
       \<longrightarrow> (\<forall>x\<in>set xs. \<exists>r\<in>set tbl'. shows_row r x)"
  proof (intro allI impI)
    fix xs tbl'
    assume run: "syncAssignments num clock uid body tbl = (Inr xs, tbl')"
    show "\<forall>x\<in>set xs. \<exists>r\<in>set tbl'. shows_row r x"
    proof (cases body)
      case NotArray
      with run show ?thesis by (simp add: syncAssignments_def)
    next
      case (Items items)
      with run have "xs = map (\<lambda>r. Some (format_row r)) (stmt_getAssignments uid tbl')"
        by (auto simp: sync_cases split: if_splits)
      then show ?thesis using listing_shows_rows [of _ uid tbl'] by blast
    qed
  qed
  have create: "\<forall>x tbl'. createAssignment clk uid p tbl = (Inr x, tbl')
       \<longrightarrow> (\<exists>r\<in>set tbl'. shows_row r x \<and> (r_completed r = 1 \<longleftrightarrow> truthy (p_completed p)))"
  proof (intro allI impI)
    fix x tbl'
    assume "createAssignment clk uid p tbl = (Inr x, tbl')"
    then have "tbl' = tbl @ [created_row clk uid p]"
      and "x = Some (format_row (created_row clk uid p))"
      by (auto simp: create_cases split: if_splits)
    moreover have "r_completed (created_row clk uid p) = 1 \<longleftrightarrow> truthy (p_completed p)"
      by (simp add: created_row_def)
    ultimately show "\<exists>r\<in>set tbl'. shows_row r x
        \<and> (r_completed r = 1 \<longleftrightarrow> truthy (p_completed p))"
      using shows_row_format [of "created_row clk uid p"] by (auto simp del: shows_row.simps)
  qed
  have update: "\<forall>x tbl'. updateAssignment clk uid aid p tbl = (Inr x, tbl')
       \<longrightarrow> (\<exists>r\<in>set tbl'. shows_row r x)"
  proof (intro allI impI)
    fix x tbl'
    assume run: "updateAssignment clk uid aid p tbl = (Inr x, tbl')"
    show "\<exists>r\<in>set tbl'. shows_row r x"
    proof (cases "stmt_getAssignment aid uid tbl")
      case None
      with run show ?thesis by (simp add: update_missing)
    next
      case (Some ex)
      show ?thesis
      proof (cases "update_ok p")
        case False
        with Some run show ?thesis by (simp add: update_found_bad)
      next
        case True
        from update_found_ok [OF Some True, of clk] run
        have x: "x = Some (format_row (merged clk ex p))"
          and get: "stmt_getAssignment aid uid tbl' = Some (merged clk ex p)" by auto
        from get have "merged clk ex p \<in> set tbl'"
          unfolding stmt_getAssignment_def by (rule find_SomeD [THEN conjunct1])
        with x show ?thesis using shows_row_format [of "merged clk ex p"] by blast
      qed
    qed
  qed
  have default: "\<forall>a tbl'. createAssignment clk uid p tbl = (Inr (Some a), tbl')
       \<longrightarrow> p_completed p = JUndefined \<longrightarrow> \<not> a_completed a"
    by (auto simp: create_cases created_row_def format_row_def split: if_splits)
  from list sync create update default show ?thesis by blast
qed

theorem completed_is_boolean_witness:
  "p_completed essay = JUndefined
   \<and> createAssignment clk0 ''alice'' essay sample_table
       = (Inr (Some (format_row (created_row clk0 ''alice'' essay))),
          sample_table @ [created_row clk0 ''alice'' essay])
   \<and> \<not> a_completed (format_row (created_row clk0 ''alice'' essay))
   \<and> r_completed quiz_alice = 1 \<and> a_completed (format_row quiz_alice)
   \<and> r_completed poster_alice = 0 \<and> \<not> a_completed (format_row poster_alice)"
proof -
  have absent: "p_completed essay = JUndefined"
    by (simp add: essay_def empty_payload_def)
  have run: "createAssignment clk0 ''alice'' essay sample_table
       = (Inr (Some (format_row (created_row clk0 ''alice'' essay))),
          sample_table @ [created_row clk0 ''alice'' essay])"
    by (simp add: create_cases create_ok_def create_id_def js_or_def essay_def
        empty_payload_def clk0_def sample_table_def quiz_alice_def lab_bob_def
        poster_alice_def reading_alice_def)
  from completed_is_boolean [of "''alice''" sample_table keeps_text clks NotArray clk0 essay "''a1''"]
    run absent
  have "\<not> a_completed (format_row (created_row clk0 ''alice'' essay))" by blast
  moreover have "r_completed quiz_alice = 1 \<and> a_completed (format_row quiz_alice)
      \<and> r_completed poster_alice = 0 \<and> \<not> a_completed (format_row poster_alice)"
    by (simp add: format_row_def quiz_alice_def poster_alice_def)
  ultimately show ?thesis using absent run by blast
qed

end
